theory Spec2Isabelle
  imports Complex_Main
begin

section \<open>Numbers, rounding and dates\<close>

text \<open>
  The Python code computes with \<open>float\<close> (and with \<open>int\<close> literals such as \<open>0\<close>).
  Amounts and rates are modelled as exact rationals. Python's built-in
  \<open>round(x, ndigits)\<close> rounds the exact value of \<open>x\<close> to the nearest multiple of
  \<open>10 ** -ndigits\<close> and resolves a tie towards the even neighbour; \<open>py_round\<close> does the
  same on the rational value. Binary representation error of floats is not modelled.
\<close>

definition round_half_even :: "rat \<Rightarrow> int" where
  "round_half_even y =
     (let f = \<lfloor>y\<rfloor>; d = y - of_int f
      in if d < 1 / 2 then f
         else if 1 / 2 < d then f + 1
         else if even f then f else f + 1)"

definition py_round :: "rat \<Rightarrow> int \<Rightarrow> rat" where
  "py_round x ndigits =
     (if 0 \<le> ndigits
      then of_int (round_half_even (x * 10 ^ nat ndigits)) / 10 ^ nat ndigits
      else of_int (round_half_even (x / 10 ^ nat (- ndigits))) * 10 ^ nat (- ndigits))"

text \<open>Dates are day numbers; only their order is used.\<close>

type_synonym date = nat

section \<open>The database\<close>

datatype treaty_status = Active | Superseded | Terminated | Pending

text \<open>
  A row of the table \<open>tabTax Treaty\<close>. A nullable column is an \<open>option\<close>;
  \<open>treaty_standard_rate\<close> is the column \<open>standard_rate\<close> (renamed, the VAT
  configuration has a column of the same name); the check box
  \<open>certificate_required\<close> (0 or 1) is a \<open>bool\<close>.
\<close>

record tax_treaty =
  treaty_code :: string
  treaty_name :: string
  country_1 :: string
  country_2 :: string
  effective_date :: "date option"
  expiry_date :: "date option"
  status :: treaty_status
  treaty_standard_rate :: "rat option"
  reduced_rate :: "rat option"
  dividend_rate :: "rat option"
  interest_rate :: "rat option"
  royalty_rate :: "rat option"
  service_fee_rate :: "rat option"
  independent_services_rate :: "rat option"
  certificate_required :: bool
  form_required :: "string option"

text \<open>
  A row of \<open>VAT Configuration\<close>, with the columns that \<open>get_vat_rate\<close> reads. The
  row's key is its country.
\<close>

record vat_configuration =
  standard_rate :: "rat option"
  reduced_rate_1 :: "rat option"
  b2b_services_rate :: "rat option"
  digital_services_rate :: "rat option"
  professional_services_rate :: "rat option"
  reverse_charge_b2b :: bool
  is_eu_member :: bool

text \<open>
  The database behind \<open>frappe.db\<close> and the clock behind \<open>nowdate()\<close> are a
  parameter of every function that reads them. \<open>currency_exchange f t d\<close> is the answer
  of the query on \<open>Currency Exchange\<close> for the pair \<open>(f, t)\<close> with \<open>date <= d\<close>,
  newest first: the stored \<open>exchange_rate\<close>, or \<open>None\<close> when there is no such record (a
  failing query is swallowed by \<open>except Exception: pass\<close> and has the same effect).
\<close>

record frappe_db =
  nowdate :: date
  currency_exchange :: "string \<Rightarrow> string \<Rightarrow> date \<Rightarrow> rat option"
  tax_treaties :: "tax_treaty list"
  vat_configurations :: "string \<Rightarrow> vat_configuration option"

section \<open>Currency conversion (utils/currency.py)\<close>

definition MOCK_EXCHANGE_RATES :: "(string \<times> rat) list" where
  "MOCK_EXCHANGE_RATES =
     [(''EUR'', 1), (''USD'', 108 / 100), (''GBP'', 86 / 100), (''CHF'', 96 / 100),
      (''PLN'', 432 / 100), (''SEK'', 1145 / 100), (''DKK'', 746 / 100),
      (''NOK'', 1165 / 100), (''CZK'', 2520 / 100), (''HUF'', 395),
      (''RON'', 498 / 100), (''BGN'', 196 / 100), (''HRK'', 753 / 100),
      (''INR'', 9050 / 100), (''JPY'', 162), (''CNY'', 785 / 100),
      (''AUD'', 165 / 100), (''CAD'', 147 / 100), (''BRL'', 535 / 100),
      (''MXN'', 1890 / 100), (''KRW'', 1425), (''SGD'', 146 / 100),
      (''HKD'', 845 / 100), (''ZAR'', 2015 / 100), (''RUB'', 9850 / 100)]"

text \<open>\<open>d.get(k, default)\<close> on a dictionary given as an association list.\<close>

definition dict_get :: "('k \<times> 'v) list \<Rightarrow> 'k \<Rightarrow> 'v \<Rightarrow> 'v" where
  "dict_get d k dflt = (case map_of d k of Some v \<Rightarrow> v | None \<Rightarrow> dflt)"

definition get_exchange_rate ::
  "frappe_db \<Rightarrow> string \<Rightarrow> string \<Rightarrow> date option \<Rightarrow> rat" where
  "get_exchange_rate db from_currency to_currency transaction_date =
     (if from_currency = to_currency then 1
      else
        let date_str = (case transaction_date of Some d \<Rightarrow> d | None \<Rightarrow> nowdate db);
            mock =
              (let from_rate = dict_get MOCK_EXCHANGE_RATES from_currency 1;
                   to_rate = dict_get MOCK_EXCHANGE_RATES to_currency 1
               in if 0 < to_rate then from_rate / to_rate else 1);
            reverse =
              (case currency_exchange db to_currency from_currency date_str of
                 Some reverse_rate \<Rightarrow>
                   if reverse_rate \<noteq> 0 \<and> 0 < reverse_rate then 1 / reverse_rate else mock
               | None \<Rightarrow> mock)
        in case currency_exchange db from_currency to_currency date_str of
             Some rate \<Rightarrow> if rate \<noteq> 0 then rate else reverse
           | None \<Rightarrow> reverse)"

definition convert_currency ::
  "frappe_db \<Rightarrow> rat \<Rightarrow> string \<Rightarrow> string \<Rightarrow> date option \<Rightarrow> int \<Rightarrow> rat" where
  "convert_currency db amount from_currency to_currency transaction_date precision =
     (if from_currency = to_currency then py_round amount precision
      else
        let rate = get_exchange_rate db from_currency to_currency transaction_date;
            converted = amount * rate
        in py_round converted precision)"

section \<open>Tax treaties (compliance/doctype/tax_treaty/tax_treaty.py)\<close>

definition get_eu_countries :: "string list" where
  "get_eu_countries =
     [''Austria'', ''Belgium'', ''Bulgaria'', ''Croatia'', ''Cyprus'', ''Czech Republic'',
      ''Denmark'', ''Estonia'', ''Finland'', ''France'', ''Germany'', ''Greece'', ''Hungary'',
      ''Ireland'', ''Italy'', ''Latvia'', ''Lithuania'', ''Luxembourg'', ''Malta'',
      ''Netherlands'', ''Poland'', ''Portugal'', ''Romania'', ''Slovakia'', ''Slovenia'',
      ''Spain'', ''Sweden'']"

text \<open>The \<open>WHERE\<close> clause of the query in \<open>get_applicable_treaty\<close>.\<close>

definition treaty_where :: "date \<Rightarrow> string \<Rightarrow> string \<Rightarrow> tax_treaty \<Rightarrow> bool" where
  "treaty_where today source_country target_country t =
     (status t = Active
      \<and> ((country_1 t = source_country \<and> country_2 t = target_country)
         \<or> (country_1 t = target_country \<and> country_2 t = source_country))
      \<and> (case expiry_date t of None \<Rightarrow> True | Some e \<Rightarrow> today \<le> e))"

text \<open>
  \<open>ORDER BY effective_date DESC LIMIT 1\<close>: the row with the latest effective date, a
  \<open>NULL\<close> date counting as earliest. SQL leaves the choice among equal dates open; the
  model takes the first such row of the table.
\<close>

fun order_by_effective_date_desc_limit_1 :: "tax_treaty list \<Rightarrow> tax_treaty option" where
  "order_by_effective_date_desc_limit_1 [] = None"
| "order_by_effective_date_desc_limit_1 (t # ts) =
     (case order_by_effective_date_desc_limit_1 ts of
        None \<Rightarrow> Some t
      | Some u \<Rightarrow>
          (case effective_date u of
             None \<Rightarrow> Some t
           | Some du \<Rightarrow>
               (case effective_date t of
                  None \<Rightarrow> Some u
                | Some dt \<Rightarrow> if dt < du then Some u else Some t)))"

definition get_applicable_treaty :: "frappe_db \<Rightarrow> string \<Rightarrow> string \<Rightarrow> tax_treaty option" where
  "get_applicable_treaty db source_country target_country =
     order_by_effective_date_desc_limit_1
       (filter (treaty_where (nowdate db) source_country target_country) (tax_treaties db))"

text \<open>
  \<open>treaty.get(field)\<close> on the dictionary that the query returns. The query selects, of
  the rate columns, only \<open>reduced_rate\<close>, \<open>service_fee_rate\<close> and
  \<open>independent_services_rate\<close>; any other key is missing from the dictionary and
  \<open>.get\<close> gives \<open>None\<close> for it.
\<close>

definition treaty_get :: "tax_treaty \<Rightarrow> string \<Rightarrow> rat option" where
  "treaty_get treaty field =
     (if field = ''reduced_rate'' then reduced_rate treaty
      else if field = ''service_fee_rate'' then service_fee_rate treaty
      else if field = ''independent_services_rate'' then independent_services_rate treaty
      else None)"

definition rate_fields :: "(string \<times> string list) list" where
  "rate_fields =
     [(''services'', [''independent_services_rate'', ''service_fee_rate'', ''reduced_rate'']),
      (''dividends'', [''dividend_rate'', ''reduced_rate'']),
      (''interest'', [''interest_rate'', ''reduced_rate'']),
      (''royalties'', [''royalty_rate'', ''reduced_rate''])]"

text \<open>
  The loop \<open>for field in ...: rate = treaty.get(field); if rate is not None: break\<close>,
  started with \<open>rate = None\<close>: the value of \<open>rate\<close> when the loop ends.
\<close>

fun first_rate :: "tax_treaty \<Rightarrow> string list \<Rightarrow> rat option" where
  "first_rate treaty [] = None"
| "first_rate treaty (field # rest) =
     (case treaty_get treaty field of
        Some rate \<Rightarrow> Some rate
      | None \<Rightarrow> first_rate treaty rest)"

text \<open>
  The dictionary returned by \<open>get_withholding_rate\<close>. The three branches return
  different keys; a key that a branch leaves out is \<open>None\<close> here. No branch sets a key
  \<open>default_rate\<close>, which the calculator asks for; \<open>ri_default_rate\<close> is that key.
\<close>

record rate_info =
  ri_rate :: rat
  ri_treaty_applied :: bool
  ri_eu_member :: "bool option"
  ri_treaty_name :: "string option"
  ri_treaty_code :: "string option"
  ri_certificate_required :: "bool option"
  ri_form_required :: "string option"
  ri_default_rate :: "rat option"
  ri_notes :: string

definition default_rates :: "(string \<times> rat) list" where
  "default_rates =
     [(''United States'', 30), (''United Kingdom'', 20), (''India'', 10), (''China'', 10),
      (''Brazil'', 15), (''Australia'', 30), (''Canada'', 25), (''Japan'', 20),
      (''South Korea'', 20), (''Russia'', 20)]"

definition get_withholding_rate ::
  "frappe_db \<Rightarrow> string \<Rightarrow> string \<Rightarrow> string \<Rightarrow> rate_info" where
  "get_withholding_rate db freelancer_country company_country income_type =
     (if freelancer_country \<in> set get_eu_countries \<and> company_country \<in> set get_eu_countries
      then \<lparr>ri_rate = 0, ri_treaty_applied = False, ri_eu_member = Some True,
             ri_treaty_name = None, ri_treaty_code = None, ri_certificate_required = None,
             ri_form_required = None, ri_default_rate = None,
             ri_notes = ''No withholding tax within EU member states''\<rparr>
      else
        case get_applicable_treaty db freelancer_country company_country of
          Some treaty \<Rightarrow>
            let rate = first_rate treaty (dict_get rate_fields income_type [''reduced_rate''])
            in \<lparr>ri_rate = (case rate of Some r \<Rightarrow> if r \<noteq> 0 then r else 0 | None \<Rightarrow> 0),
                 ri_treaty_applied = True, ri_eu_member = None,
                 ri_treaty_name = Some (treaty_name treaty),
                 ri_treaty_code = Some (treaty_code treaty),
                 ri_certificate_required = Some (certificate_required treaty),
                 ri_form_required = form_required treaty, ri_default_rate = None,
                 ri_notes = ''Rate under '' @ treaty_name treaty\<rparr>
        | None \<Rightarrow>
            \<lparr>ri_rate = dict_get default_rates freelancer_country 30,
              ri_treaty_applied = False, ri_eu_member = None,
              ri_treaty_name = None, ri_treaty_code = None, ri_certificate_required = None,
              ri_form_required = None, ri_default_rate = None,
              ri_notes = ''No applicable treaty found. Default withholding rate applied.''\<rparr>)"

section \<open>VAT rates (compliance/doctype/vat_configuration/vat_configuration.py)\<close>

text \<open>Python's \<open>a or b\<close> on nullable numbers: \<open>a\<close> unless it is \<open>None\<close> or zero.\<close>

definition py_or :: "rat option \<Rightarrow> rat option \<Rightarrow> rat option" where
  "py_or a b = (case a of Some x \<Rightarrow> if x \<noteq> 0 then Some x else b | None \<Rightarrow> b)"

text \<open>
  The dictionary returned by \<open>get_vat_rate\<close>. Its \<open>rate\<close> is \<open>None\<close> when the chosen
  column of the configuration is null; the key \<open>is_eu\<close> is missing (\<open>None\<close>) when
  there is no configuration.
\<close>

record vat_info =
  vi_rate :: "rat option"
  vi_reverse_charge :: bool
  vi_is_eu :: "bool option"
  vi_notes :: string

definition get_vat_rate :: "frappe_db \<Rightarrow> string \<Rightarrow> string \<Rightarrow> bool \<Rightarrow> vat_info" where
  "get_vat_rate db country service_type is_b2b =
     (case vat_configurations db country of
        None \<Rightarrow>
          \<lparr>vi_rate = Some 0, vi_reverse_charge = False, vi_is_eu = None,
            vi_notes = ''No VAT configuration found for '' @ country\<rparr>
      | Some config \<Rightarrow>
          if is_b2b \<and> reverse_charge_b2b config
          then \<lparr>vi_rate = Some 0, vi_reverse_charge = True,
                 vi_is_eu = Some (is_eu_member config),
                 vi_notes = ''Reverse charge applies - VAT shifted to recipient''\<rparr>
          else
            let rate_map =
                  [(''standard'', standard_rate config),
                   (''reduced'', reduced_rate_1 config),
                   (''digital'', py_or (digital_services_rate config) (standard_rate config)),
                   (''professional'',
                      py_or (professional_services_rate config) (standard_rate config))]
            in \<lparr>vi_rate = dict_get rate_map service_type (standard_rate config),
                 vi_reverse_charge = False, vi_is_eu = Some (is_eu_member config),
                 vi_notes = ''Standard '' @ service_type @ '' rate for '' @ country\<rparr>)"

section \<open>The tax calculator (utils/tax_calculations.py)\<close>

text \<open>
  The only exception that the calculation itself can raise: arithmetic on a VAT rate
  that is \<open>None\<close>.
\<close>

datatype error = TypeError

text \<open>The attributes of a \<open>TaxCalculator\<close> object, set once by \<open>__init__\<close>.\<close>

record tax_calculator =
  freelancer_country :: string
  company_country :: string
  is_b2b :: bool
  transaction_date :: date
  eu_countries :: "string list"
  is_freelancer_eu :: bool
  is_company_eu :: bool
  is_cross_border :: bool

definition TaxCalculator ::
  "frappe_db \<Rightarrow> string \<Rightarrow> string \<Rightarrow> bool \<Rightarrow> date option \<Rightarrow> tax_calculator" where
  "TaxCalculator db freelancer company b2b date_arg =
     \<lparr>freelancer_country = freelancer,
      company_country = company,
      is_b2b = b2b,
      transaction_date = (case date_arg of Some d \<Rightarrow> d | None \<Rightarrow> nowdate db),
      eu_countries = get_eu_countries,
      is_freelancer_eu = (freelancer \<in> set get_eu_countries),
      is_company_eu = (company \<in> set get_eu_countries),
      is_cross_border = (freelancer \<noteq> company)\<rparr>"

text \<open>
  The dictionaries returned by \<open>_calculate_withholding\<close> and \<open>_calculate_vat\<close> (the
  leading underscore of a private method is dropped in the model's names). The two early
  returns of \<open>_calculate_withholding\<close> leave out \<open>treaty_name\<close> and
  \<open>certificate_required\<close>: \<open>None\<close> here.
\<close>

record withholding =
  wh_rate :: rat
  wh_amount :: rat
  wh_treaty_applied :: bool
  wh_treaty_name :: "string option"
  wh_certificate_required :: "bool option"
  wh_notes :: string

record vat =
  vat_rate :: rat
  vat_amount :: rat
  vat_reverse_charge :: bool
  vat_notes :: string

definition calculate_withholding ::
  "frappe_db \<Rightarrow> tax_calculator \<Rightarrow> rat \<Rightarrow> bool \<Rightarrow> withholding" where
  "calculate_withholding db self amount has_certificate =
     (if is_freelancer_eu self \<and> is_company_eu self
      then \<lparr>wh_rate = 0, wh_amount = 0, wh_treaty_applied = False, wh_treaty_name = None,
             wh_certificate_required = None,
             wh_notes = ''No withholding tax between EU member states''\<rparr>
      else if \<not> is_cross_border self
      then \<lparr>wh_rate = 0, wh_amount = 0, wh_treaty_applied = False, wh_treaty_name = None,
             wh_certificate_required = None,
             wh_notes = ''Domestic payment - no withholding''\<rparr>
      else
        let rate_info =
              get_withholding_rate db (freelancer_country self) (company_country self)
                ''services'';
            rate0 = ri_rate rate_info;
            adjust = (0 < rate0 \<and> \<not> has_certificate
                      \<and> ri_certificate_required rate_info = Some True);
            rate = (if adjust
                    then (case ri_default_rate rate_info of Some d \<Rightarrow> d | None \<Rightarrow> rate0)
                    else rate0);
            notes = (if adjust
                     then ri_notes rate_info @ '' (Certificate required for reduced rate)''
                     else ri_notes rate_info)
        in \<lparr>wh_rate = rate,
             wh_amount = py_round (amount * rate / 100) 2,
             wh_treaty_applied = ri_treaty_applied rate_info,
             wh_treaty_name = ri_treaty_name rate_info,
             wh_certificate_required =
               Some (case ri_certificate_required rate_info of Some c \<Rightarrow> c | None \<Rightarrow> False),
             wh_notes = notes\<rparr>)"

definition calculate_vat ::
  "frappe_db \<Rightarrow> tax_calculator \<Rightarrow> rat \<Rightarrow> string \<Rightarrow> error + vat" where
  "calculate_vat db self amount service_type =
     (if is_cross_border self \<and> is_freelancer_eu self \<and> is_company_eu self \<and> is_b2b self
      then Inr \<lparr>vat_rate = 0, vat_amount = 0, vat_reverse_charge = True,
                 vat_notes = ''EU B2B reverse charge mechanism - VAT accounted by recipient''\<rparr>
      else if \<not> is_freelancer_eu self \<and> is_company_eu self \<and> is_b2b self
      then Inr \<lparr>vat_rate = 0, vat_amount = 0, vat_reverse_charge = True,
                 vat_notes = ''Import of services - reverse charge applies''\<rparr>
      else if is_freelancer_eu self \<and> \<not> is_company_eu self
      then Inr \<lparr>vat_rate = 0, vat_amount = 0, vat_reverse_charge = False,
                 vat_notes = ''Export of services outside EU - 0% VAT''\<rparr>
      else
        let vat_info = get_vat_rate db (freelancer_country self) service_type (is_b2b self)
        in case vi_rate vat_info of
             None \<Rightarrow> Inl TypeError
           | Some rate \<Rightarrow>
               Inr \<lparr>vat_rate = rate,
                    vat_amount = py_round (amount * rate / 100) 2,
                    vat_reverse_charge = False,
                    vat_notes = ''Standard VAT rate for '' @ freelancer_country self\<rparr>)"

text \<open>
  An entry of \<open>compliance_notes\<close>. Each note of the source is a fixed text, two of them
  with a value interpolated; the model keeps the kind of the note and that value:
  \<^item> \<open>REVERSE_CHARGE\<close>: "REVERSE CHARGE: Under EU VAT Directive Article 196, ...";
  \<^item> \<open>WITHHOLDING_TAX rate\<close>: "WITHHOLDING TAX: \{rate\}% will be withheld. ...";
  \<^item> \<open>TAX_TREATY name\<close>: "TAX TREATY: Reduced rate applied under \{treaty_name\}.
    Ensure tax residency certificate is on file.";
  \<^item> \<open>EU_INTRA_COMMUNITY\<close>: "EU INTRA-COMMUNITY: This is an intra-Community supply of
    services. ...";
  \<^item> \<open>LARGE_PAYMENT\<close>: "LARGE PAYMENT: Amounts over 10,000 euros may have additional
    reporting requirements. Verify compliance with anti-money laundering regulations."
\<close>

datatype compliance_note =
    REVERSE_CHARGE
  | WITHHOLDING_TAX rat
  | TAX_TREATY "string option"
  | EU_INTRA_COMMUNITY
  | LARGE_PAYMENT

text \<open>An entry of \<open>components\<close>; \<open>c_reverse_charge\<close> exists for the VAT entry only.\<close>

record component =
  c_type :: string
  c_rate :: rat
  c_amount :: rat
  c_reverse_charge :: "bool option"
  c_deductible :: bool

text \<open>The dictionary returned by \<open>calculate_all_taxes\<close>.\<close>

record tax_breakdown =
  gross_amount :: rat
  res_freelancer_country :: string
  res_company_country :: string
  is_eu_freelancer :: bool
  res_is_cross_border :: bool
  res_transaction_date :: date
  components :: "component list"
  warnings :: "string list"
  compliance_notes :: "compliance_note list"
  withholding_tax :: withholding
  vat :: vat
  gross_with_vat :: rat
  total_deductions :: rat
  net_payable :: rat

definition get_compliance_notes :: "tax_calculator \<Rightarrow> tax_breakdown \<Rightarrow> compliance_note list" where
  "get_compliance_notes self result =
     (if vat_reverse_charge (vat result) then [REVERSE_CHARGE] else [])
     @ (if 0 < wh_rate (withholding_tax result)
        then WITHHOLDING_TAX (wh_rate (withholding_tax result))
             # (if wh_treaty_applied (withholding_tax result)
                then [TAX_TREATY (wh_treaty_name (withholding_tax result))] else [])
        else [])
     @ (if is_freelancer_eu self \<and> is_company_eu self \<and> is_cross_border self
        then [EU_INTRA_COMMUNITY] else [])
     @ (if 10000 < gross_amount result then [LARGE_PAYMENT] else [])"

definition calculate_all_taxes ::
  "frappe_db \<Rightarrow> tax_calculator \<Rightarrow> rat \<Rightarrow> string \<Rightarrow> bool \<Rightarrow> error + tax_breakdown" where
  "calculate_all_taxes db self gross service_type has_tax_certificate =
     (let withholding = calculate_withholding db self gross has_tax_certificate;
          components1 =
            (if 0 < wh_rate withholding
             then [\<lparr>c_type = ''withholding_tax'', c_rate = wh_rate withholding,
                     c_amount = wh_amount withholding, c_reverse_charge = None,
                     c_deductible = True\<rparr>]
             else [])
      in case calculate_vat db self gross service_type of
           Inl e \<Rightarrow> Inl e
         | Inr v \<Rightarrow>
             let components2 =
                   components1
                   @ (if 0 < vat_amount v \<or> vat_reverse_charge v
                      then [\<lparr>c_type = ''vat'', c_rate = vat_rate v, c_amount = vat_amount v,
                              c_reverse_charge = Some (vat_reverse_charge v),
                              c_deductible = False\<rparr>]
                      else []);
                 result =
                   \<lparr>gross_amount = gross,
                    res_freelancer_country = freelancer_country self,
                    res_company_country = company_country self,
                    is_eu_freelancer = is_freelancer_eu self,
                    res_is_cross_border = is_cross_border self,
                    res_transaction_date = transaction_date self,
                    components = components2,
                    warnings = [],
                    compliance_notes = [],
                    withholding_tax = withholding,
                    vat = v,
                    gross_with_vat = gross + vat_amount v,
                    total_deductions = wh_amount withholding,
                    net_payable =
                      (if vat_reverse_charge v then gross - wh_amount withholding
                       else gross + vat_amount v - wh_amount withholding)\<rparr>
             in Inr (result\<lparr>compliance_notes := get_compliance_notes self result\<rparr>))"

section \<open>Example data\<close>

text \<open>
  Two rows of \<open>VAT Configuration\<close> with the values of the shipped fixture
  (\<open>get_default_vat_configurations\<close>), and three treaty rows: the fixture's
  Netherlands-United Kingdom treaty, a Netherlands-United States treaty that defines only
  a reduced rate, and one that defines only a standard rate.
\<close>

definition example_vat :: "string \<Rightarrow> vat_configuration option" where
  "example_vat =
     [''Germany'' \<mapsto>
        \<lparr>standard_rate = Some 19, reduced_rate_1 = Some 7, b2b_services_rate = None,
         digital_services_rate = None, professional_services_rate = None,
         reverse_charge_b2b = True, is_eu_member = True\<rparr>,
      ''United Kingdom'' \<mapsto>
        \<lparr>standard_rate = Some 20, reduced_rate_1 = Some 5, b2b_services_rate = None,
         digital_services_rate = None, professional_services_rate = None,
         reverse_charge_b2b = False, is_eu_member = False\<rparr>]"

definition example_db :: "tax_treaty list \<Rightarrow> frappe_db" where
  "example_db treaties =
     \<lparr>nowdate = 20000, currency_exchange = (\<lambda>f t d. None),
      tax_treaties = treaties, vat_configurations = example_vat\<rparr>"

definition treaty_NL_UK :: tax_treaty where
  "treaty_NL_UK =
     \<lparr>treaty_code = ''NL-UK'',
      treaty_name = ''Netherlands-United Kingdom Double Taxation Convention'',
      country_1 = ''Netherlands'', country_2 = ''United Kingdom'',
      effective_date = None, expiry_date = None, status = Active,
      treaty_standard_rate = Some 20, reduced_rate = Some 0, dividend_rate = Some 10,
      interest_rate = Some 0, royalty_rate = Some 0, service_fee_rate = Some 0,
      independent_services_rate = Some 0, certificate_required = True,
      form_required = None\<rparr>"

definition treaty_NL_US :: tax_treaty where
  "treaty_NL_US =
     \<lparr>treaty_code = ''NL-US'',
      treaty_name = ''Netherlands-United States Income Tax Treaty'',
      country_1 = ''Netherlands'', country_2 = ''United States'',
      effective_date = None, expiry_date = None, status = Active,
      treaty_standard_rate = Some 30, reduced_rate = Some 15, dividend_rate = None,
      interest_rate = None, royalty_rate = None, service_fee_rate = None,
      independent_services_rate = None, certificate_required = True,
      form_required = Some ''W-8BEN''\<rparr>"

definition treaty_standard_only :: tax_treaty where
  "treaty_standard_only =
     \<lparr>treaty_code = ''NL-US'',
      treaty_name = ''Netherlands-United States Income Tax Treaty'',
      country_1 = ''Netherlands'', country_2 = ''United States'',
      effective_date = None, expiry_date = None, status = Active,
      treaty_standard_rate = Some 30, reduced_rate = None, dividend_rate = None,
      interest_rate = None, royalty_rate = None, service_fee_rate = None,
      independent_services_rate = None, certificate_required = False,
      form_required = None\<rparr>"

section \<open>Rounding\<close>

lemma round_half_even_of_int: "round_half_even (of_int k) = k"
  by (simp add: round_half_even_def)

lemma round_half_even_fixed: "(rat_of_int (round_half_even y) = y) = (y \<in> \<int>)"
proof
  assume "rat_of_int (round_half_even y) = y"
  then have "y = of_int (round_half_even y)" by simp
  then show "y \<in> \<int>" by (metis Ints_of_int)
next
  assume "y \<in> \<int>"
  then obtain k where "y = of_int k" by (auto elim: Ints_cases)
  then show "rat_of_int (round_half_even y) = y" by (simp add: round_half_even_of_int)
qed

lemma round_half_even_mono: "x \<le> y \<Longrightarrow> round_half_even x \<le> round_half_even y"
proof -
  assume xy: "x \<le> y"
  have fxy: "\<lfloor>x\<rfloor> \<le> \<lfloor>y\<rfloor>" using xy by (rule floor_mono)
  show ?thesis
  proof (cases "\<lfloor>x\<rfloor> = \<lfloor>y\<rfloor>")
    case True
    then show ?thesis using xy by (auto simp: round_half_even_def Let_def)
  next
    case False
    then have "\<lfloor>x\<rfloor> + 1 \<le> \<lfloor>y\<rfloor>" using fxy by simp
    moreover have "round_half_even x \<le> \<lfloor>x\<rfloor> + 1" by (simp add: round_half_even_def Let_def)
    moreover have "\<lfloor>y\<rfloor> \<le> round_half_even y" by (simp add: round_half_even_def Let_def)
    ultimately show ?thesis by linarith
  qed
qed

lemma py_round_mono: "x \<le> y \<Longrightarrow> py_round x n \<le> py_round y n"
proof -
  assume xy: "x \<le> y"
  show ?thesis
  proof (cases "0 \<le> n")
    case True
    have "x * 10 ^ nat n \<le> y * 10 ^ nat n" using xy by (simp add: mult_right_mono)
    then have "round_half_even (x * 10 ^ nat n) \<le> round_half_even (y * 10 ^ nat n)"
      by (rule round_half_even_mono)
    then show ?thesis using True by (simp add: py_round_def divide_right_mono)
  next
    case False
    have "x / 10 ^ nat (- n) \<le> y / 10 ^ nat (- n)" using xy by (simp add: divide_right_mono)
    then have "round_half_even (x / 10 ^ nat (- n)) \<le> round_half_even (y / 10 ^ nat (- n))"
      by (rule round_half_even_mono)
    then show ?thesis using False by (simp add: py_round_def mult_right_mono)
  qed
qed

lemma py_round_zero: "py_round 0 n = 0"
  by (simp add: py_round_def round_half_even_def)

lemma py_round_fixed_nonneg:
  "0 \<le> n \<Longrightarrow> (py_round x n = x) = (x * 10 ^ nat n \<in> \<int>)"
proof -
  assume n: "0 \<le> n"
  have "(py_round x n = x) = (rat_of_int (round_half_even (x * 10 ^ nat n)) = x * 10 ^ nat n)"
    using n by (simp add: py_round_def field_simps)
  then show ?thesis by (simp add: round_half_even_fixed)
qed

lemma py_round_fixed_neg:
  "n < 0 \<Longrightarrow> (py_round x n = x) = (x / 10 ^ nat (- n) \<in> \<int>)"
proof -
  assume n: "n < 0"
  have "(py_round x n = x) = (rat_of_int (round_half_even (x / 10 ^ nat (- n))) = x / 10 ^ nat (- n))"
    using n by (simp add: py_round_def field_simps)
  then show ?thesis by (simp add: round_half_even_fixed)
qed

lemma mock_rate_pos: "0 < dict_get MOCK_EXCHANGE_RATES c 1"
  by (simp add: dict_get_def MOCK_EXCHANGE_RATES_def)


lemma py_round_numeral [simp]: "py_round (numeral n) 2 = numeral n"
  by (simp add: py_round_fixed_nonneg)

lemma py_round_neg_numeral [simp]: "py_round (- numeral n) 2 = - numeral n"
  by (simp add: py_round_fixed_nonneg)

lemma py_round_small: "0 \<le> x \<Longrightarrow> x < 1 / 200 \<Longrightarrow> py_round x 2 = 0"
proof -
  assume a: "0 \<le> x" "x < 1 / 200"
  then have "0 \<le> x * 100" "x * 100 < 1 / 2" by simp_all
  then have f: "\<lfloor>x * 100\<rfloor> = 0" by (simp add: floor_eq_iff)
  then have "round_half_even (x * 100) = 0"
    using \<open>x * 100 < 1 / 2\<close> by (simp add: round_half_even_def Let_def)
  then show ?thesis by (simp add: py_round_def)
qed

text \<open>The definitions that the evaluation of a concrete request unfolds.\<close>

lemmas eval_defs =
  calculate_all_taxes_def calculate_withholding_def calculate_vat_def
  get_compliance_notes_def TaxCalculator_def get_withholding_rate_def
  get_applicable_treaty_def treaty_where_def treaty_get_def rate_fields_def
  default_rates_def dict_get_def get_vat_rate_def py_or_def get_eu_countries_def
  example_db_def example_vat_def treaty_NL_UK_def treaty_NL_US_def
  treaty_standard_only_def Let_def py_round_zero

section \<open>Currency conversion\<close>

text \<open>
  C6, as stated: for every amount \<open>x\<close>, currency \<open>C\<close> and precision \<open>p\<close>,
  \<open>convert(x, C, C, p)\<close> returns \<open>x\<close> exactly, with no rounding applied. The code
  rounds also when the two currencies are equal: 1.234 EUR to EUR at precision 2 is 1.23.
\<close>

theorem convert_same_currency_counterexample:
  "convert_currency (example_db []) (1234 / 1000) ''EUR'' ''EUR'' None 2 = 123 / 100
   \<and> convert_currency (example_db []) (1234 / 1000) ''EUR'' ''EUR'' None 2 \<noteq> 1234 / 1000"
  by code_simp

text \<open>
  C6, amended: a same-currency conversion applies no exchange rate and returns \<open>x\<close>
  rounded to \<open>p\<close> decimal places (\<open>round(x, p)\<close>, ties to even). The result is
  \<open>x\<close> itself exactly when \<open>x\<close> is a multiple of \<open>10 ** -p\<close>, that is, when it has no
  more than \<open>p\<close> decimal places.
\<close>

theorem convert_same_currency_rounds:
  "convert_currency db x c c td p = py_round x p
   \<and> (0 \<le> p \<longrightarrow> (convert_currency db x c c td p = x) = (x * 10 ^ nat p \<in> \<int>))
   \<and> (p < 0 \<longrightarrow> (convert_currency db x c c td p = x) = (x / 10 ^ nat (- p) \<in> \<int>))"
  by (simp add: convert_currency_def py_round_fixed_nonneg py_round_fixed_neg)

theorem convert_same_currency_rounds_witness:
  "(0::int) \<le> 2
   \<and> convert_currency (example_db []) 100 ''EUR'' ''EUR'' None 2 = 100
   \<and> (100::rat) * 10 ^ nat 2 \<in> \<int>"
proof -
  have "(100::rat) * 10 ^ nat 2 = of_int 10000" by simp
  then have ints: "(100::rat) * 10 ^ nat 2 \<in> \<int>" by (metis Ints_of_int)
  then show ?thesis
    using convert_same_currency_rounds [of "example_db []" 100 "''EUR''" None 2]
    by simp
qed

text \<open>
  C7, as stated: for a currency code that is absent from the reference-rate table the
  rate lookup fails with an \<open>UnknownCurrency\<close> error instead of silently substituting a
  default rate. The code has no such error: \<open>XXX\<close> is not in the table, and the lookup
  from \<open>XXX\<close> to \<open>USD\<close> returns 1.0 / 1.08, computed with 1.0 in place of the missing
  rate.
\<close>

theorem unknown_currency_counterexample:
  "map_of MOCK_EXCHANGE_RATES ''XXX'' = None
   \<and> get_exchange_rate (example_db []) ''XXX'' ''USD'' None = 1 / (108 / 100)"
  by code_simp

text \<open>
  C7, amended: for a currency code that is absent from the reference-rate table (and for
  which the database holds no exchange record in either direction), the lookup
  substitutes the rate 1.0 for it and returns \<open>1.0 / to_rate\<close>; it never fails, and
  \<open>convert_currency\<close> converts with that rate.
\<close>

theorem unknown_currency_defaults_to_one:
  assumes "map_of MOCK_EXCHANGE_RATES from_currency = None"
    and "from_currency \<noteq> to_currency"
    and "d = (case td of Some d' \<Rightarrow> d' | None \<Rightarrow> nowdate db)"
    and "currency_exchange db from_currency to_currency d = None"
    and "currency_exchange db to_currency from_currency d = None"
  shows "get_exchange_rate db from_currency to_currency td
           = 1 / dict_get MOCK_EXCHANGE_RATES to_currency 1
         \<and> convert_currency db amount from_currency to_currency td p
           = py_round (amount * (1 / dict_get MOCK_EXCHANGE_RATES to_currency 1)) p"
proof -
  have from_rate: "dict_get MOCK_EXCHANGE_RATES from_currency 1 = 1"
    using assms(1) by (simp add: dict_get_def)
  have rate: "get_exchange_rate db from_currency to_currency td
                = 1 / dict_get MOCK_EXCHANGE_RATES to_currency 1"
    using assms(2-5) from_rate mock_rate_pos [of to_currency]
    by (simp add: get_exchange_rate_def Let_def)
  then show ?thesis
    using assms(2) by (simp add: convert_currency_def Let_def)
qed

theorem unknown_currency_defaults_to_one_witness:
  "map_of MOCK_EXCHANGE_RATES ''XXX'' = None
   \<and> ''XXX'' \<noteq> ''USD''
   \<and> currency_exchange (example_db []) ''XXX'' ''USD'' 20000 = None
   \<and> currency_exchange (example_db []) ''USD'' ''XXX'' 20000 = None
   \<and> get_exchange_rate (example_db []) ''XXX'' ''USD'' None
       = 1 / dict_get MOCK_EXCHANGE_RATES ''USD'' 1"
proof -
  have a: "map_of MOCK_EXCHANGE_RATES ''XXX'' = None" by code_simp
  have b: "''XXX'' \<noteq> ''USD''" by simp
  have c: "(20000::nat) = (case None of Some d' \<Rightarrow> d' | None \<Rightarrow> nowdate (example_db []))"
    by (simp add: example_db_def)
  have d: "currency_exchange (example_db []) ''XXX'' ''USD'' 20000 = None"
    by (simp add: example_db_def)
  have e: "currency_exchange (example_db []) ''USD'' ''XXX'' 20000 = None"
    by (simp add: example_db_def)
  show ?thesis
    using a b d e unknown_currency_defaults_to_one [OF a b c d e] by simp
qed

section \<open>The calculator: what a run returns\<close>

lemma calculate_all_taxes_Inr:
  assumes "calculate_all_taxes db self g st cert = Inr r"
  shows "calculate_vat db self g st = Inr (vat r)"
    and "withholding_tax r = calculate_withholding db self g cert"
    and "gross_amount r = g"
    and "compliance_notes r = get_compliance_notes self r"
  using assms
  by (auto simp: calculate_all_taxes_def Let_def get_compliance_notes_def split: sum.splits)

lemma calculate_all_taxes_returns:
  assumes "calculate_vat db self g st = Inr v"
  shows "\<exists>r. calculate_all_taxes db self g st cert = Inr r"
  using assms by (simp add: calculate_all_taxes_def Let_def)

lemma calculate_all_taxes_error:
  assumes "calculate_vat db self g st = Inl e"
  shows "calculate_all_taxes db self g st cert = Inl e"
  using assms by (simp add: calculate_all_taxes_def Let_def)

lemma calculate_vat_error:
  "(calculate_vat db self g st = Inl e) =
     (\<not> (is_cross_border self \<and> is_freelancer_eu self \<and> is_company_eu self \<and> is_b2b self)
      \<and> \<not> (\<not> is_freelancer_eu self \<and> is_company_eu self \<and> is_b2b self)
      \<and> \<not> (is_freelancer_eu self \<and> \<not> is_company_eu self)
      \<and> vi_rate (get_vat_rate db (freelancer_country self) st (is_b2b self)) = None)"
  by (cases e) (auto simp: calculate_vat_def Let_def split: option.splits)

section \<open>Withholding\<close>

text \<open>
  C1, as stated: when a treaty exists for the cross-border pair, requires a tax
  certificate, and the freelancer has none, the rate used is the payee country's default
  withholding rate and the breakdown records a compliance note that the default rate was
  applied. The code looks the default up under a key \<open>default_rate\<close> that
  \<open>get_withholding_rate\<close> never sets, so the treaty rate stays. A freelancer of the
  United States (default rate 30) paid by a Dutch company under a treaty with a reduced
  rate of 15, certificate required and absent, gross 1000: the code withholds 15% = 150
  and its compliance notes say that the reduced treaty rate was applied.
\<close>

theorem missing_certificate_keeps_treaty_rate:
  "get_applicable_treaty (example_db [treaty_NL_US]) ''United States'' ''Netherlands''
     = Some treaty_NL_US
   \<and> certificate_required treaty_NL_US
   \<and> dict_get default_rates ''United States'' 30 = 30
   \<and> map_sum id withholding_tax
       (calculate_all_taxes (example_db [treaty_NL_US])
          (TaxCalculator (example_db [treaty_NL_US]) ''United States'' ''Netherlands'' True None)
          1000 ''professional'' False)
     = Inr \<lparr>wh_rate = 15, wh_amount = 150, wh_treaty_applied = True,
             wh_treaty_name = Some ''Netherlands-United States Income Tax Treaty'',
             wh_certificate_required = Some True,
             wh_notes = ''Rate under Netherlands-United States Income Tax Treaty (Certificate required for reduced rate)''\<rparr>
   \<and> map_sum id compliance_notes
       (calculate_all_taxes (example_db [treaty_NL_US])
          (TaxCalculator (example_db [treaty_NL_US]) ''United States'' ''Netherlands'' True None)
          1000 ''professional'' False)
     = Inr [REVERSE_CHARGE, WITHHOLDING_TAX 15,
            TAX_TREATY (Some ''Netherlands-United States Income Tax Treaty'')]"
  by (simp add: eval_defs)

text \<open>
  C9: for every request in which the payer country equals the payee country, the
  withholding step yields rate 0 and amount 0, and so does every breakdown that
  \<open>calculate_all_taxes\<close> returns.
\<close>

theorem same_country_no_withholding:
  assumes "freelancer = company"
  shows "wh_rate (calculate_withholding db (TaxCalculator db freelancer company b2b td) g cert) = 0
     \<and> wh_amount (calculate_withholding db (TaxCalculator db freelancer company b2b td) g cert) = 0
     \<and> (\<forall>r. calculate_all_taxes db (TaxCalculator db freelancer company b2b td) g st cert = Inr r
            \<longrightarrow> wh_rate (withholding_tax r) = 0 \<and> wh_amount (withholding_tax r) = 0)"
proof -
  let ?self = "TaxCalculator db freelancer company b2b td"
  have "\<not> is_cross_border ?self" using assms by (simp add: TaxCalculator_def)
  then have w: "wh_rate (calculate_withholding db ?self g cert) = 0
              \<and> wh_amount (calculate_withholding db ?self g cert) = 0"
    by (simp add: calculate_withholding_def)
  moreover have "wh_rate (withholding_tax r) = 0 \<and> wh_amount (withholding_tax r) = 0"
    if "calculate_all_taxes db ?self g st cert = Inr r" for r
    using calculate_all_taxes_Inr(2) [OF that] w by simp
  ultimately show ?thesis by blast
qed

theorem same_country_no_withholding_witness:
  "''United Kingdom'' = ''United Kingdom''
   \<and> (\<exists>r. calculate_all_taxes (example_db [])
             (TaxCalculator (example_db []) ''United Kingdom'' ''United Kingdom'' False None)
             1000 ''standard'' False = Inr r
          \<and> wh_rate (withholding_tax r) = 0 \<and> wh_amount (withholding_tax r) = 0)"
proof -
  have "calculate_vat (example_db [])
          (TaxCalculator (example_db []) ''United Kingdom'' ''United Kingdom'' False None)
          1000 ''standard''
        = Inr \<lparr>vat_rate = 20, vat_amount = 200, vat_reverse_charge = False,
                vat_notes = ''Standard VAT rate for United Kingdom''\<rparr>"
    by (simp add: eval_defs)
  from calculate_all_taxes_returns [OF this]
  obtain r where r: "calculate_all_taxes (example_db [])
             (TaxCalculator (example_db []) ''United Kingdom'' ''United Kingdom'' False None)
             1000 ''standard'' False = Inr r" by blast
  then show ?thesis
    using same_country_no_withholding [of "''United Kingdom''" "''United Kingdom''"
        "example_db []" False None 1000 False "''standard''"]
    by blast
qed

text \<open>
  C10: when an active treaty is found (the pair is not inside the EU) and its applicable
  rate fields resolve to 0 or are all null, the lookup reports rate 0 with
  \<open>treaty_applied\<close> true; the calculator's certificate adjustment does not run (the
  note keeps its text and the rate stays 0), whatever \<open>has_certificate\<close> and the
  treaty's \<open>certificate_required\<close> are.
\<close>

theorem zero_treaty_rate_skips_certificate_check:
  assumes "\<not> (freelancer \<in> set get_eu_countries \<and> company \<in> set get_eu_countries)"
    and "get_applicable_treaty db freelancer company = Some t"
    and "first_rate t (dict_get rate_fields income_type [''reduced_rate'']) = None
         \<or> first_rate t (dict_get rate_fields income_type [''reduced_rate'']) = Some 0"
  shows "ri_rate (get_withholding_rate db freelancer company income_type) = 0
     \<and> ri_treaty_applied (get_withholding_rate db freelancer company income_type)
     \<and> (income_type = ''services'' \<longrightarrow> freelancer \<noteq> company \<longrightarrow>
          calculate_withholding db (TaxCalculator db freelancer company b2b td) g cert
          = \<lparr>wh_rate = 0, wh_amount = 0, wh_treaty_applied = True,
              wh_treaty_name = Some (treaty_name t),
              wh_certificate_required = Some (certificate_required t),
              wh_notes = ''Rate under '' @ treaty_name t\<rparr>)"
proof -
  have info: "get_withholding_rate db freelancer company income_type
      = \<lparr>ri_rate = 0, ri_treaty_applied = True, ri_eu_member = None,
          ri_treaty_name = Some (treaty_name t), ri_treaty_code = Some (treaty_code t),
          ri_certificate_required = Some (certificate_required t),
          ri_form_required = form_required t, ri_default_rate = None,
          ri_notes = ''Rate under '' @ treaty_name t\<rparr>"
    using assms by (auto simp: get_withholding_rate_def Let_def)
  have "calculate_withholding db (TaxCalculator db freelancer company b2b td) g cert
          = \<lparr>wh_rate = 0, wh_amount = 0, wh_treaty_applied = True,
              wh_treaty_name = Some (treaty_name t),
              wh_certificate_required = Some (certificate_required t),
              wh_notes = ''Rate under '' @ treaty_name t\<rparr>"
    if "income_type = ''services''" "freelancer \<noteq> company"
    using that assms(1) info
    by (simp add: calculate_withholding_def TaxCalculator_def Let_def py_round_zero)
  then show ?thesis using info by simp
qed

theorem zero_treaty_rate_skips_certificate_check_witness:
  "\<not> (''United Kingdom'' \<in> set get_eu_countries \<and> ''Netherlands'' \<in> set get_eu_countries)
   \<and> get_applicable_treaty (example_db [treaty_NL_UK]) ''United Kingdom'' ''Netherlands''
       = Some treaty_NL_UK
   \<and> first_rate treaty_NL_UK (dict_get rate_fields ''services'' [''reduced_rate'']) = Some 0
   \<and> certificate_required treaty_NL_UK
   \<and> calculate_withholding (example_db [treaty_NL_UK])
        (TaxCalculator (example_db [treaty_NL_UK]) ''United Kingdom'' ''Netherlands'' True None)
        1000 False
      = \<lparr>wh_rate = 0, wh_amount = 0, wh_treaty_applied = True,
          wh_treaty_name = Some (treaty_name treaty_NL_UK),
          wh_certificate_required = Some (certificate_required treaty_NL_UK),
          wh_notes = ''Rate under '' @ treaty_name treaty_NL_UK\<rparr>"
proof -
  have a: "\<not> (''United Kingdom'' \<in> set get_eu_countries \<and> ''Netherlands'' \<in> set get_eu_countries)"
    by (simp add: eval_defs)
  have b: "get_applicable_treaty (example_db [treaty_NL_UK]) ''United Kingdom'' ''Netherlands''
       = Some treaty_NL_UK"
    by (simp add: eval_defs)
  have c: "first_rate treaty_NL_UK (dict_get rate_fields ''services'' [''reduced_rate'']) = Some 0"
    by (simp add: eval_defs)
  have d: "certificate_required treaty_NL_UK" by (simp add: eval_defs)
  have e: "''United Kingdom'' \<noteq> ''Netherlands''" by simp
  show ?thesis
    using a b c d e
      zero_treaty_rate_skips_certificate_check [OF a b disjI2 [OF c], of True None 1000 False]
    by simp
qed

text \<open>
  C4, as stated: rate resolution tries the income-type-specific field, then
  \<open>reduced_rate\<close>, then \<open>standard_rate\<close>, and fails with \<open>NoRateDefined\<close> exactly
  when all three are absent. The code never reads \<open>standard_rate\<close> and never fails: a
  treaty whose only rate is a standard rate of 30 resolves to rate 0, reported as a
  treaty rate.
\<close>

theorem treaty_rate_counterexample:
  "treaty_standard_rate treaty_standard_only = Some 30
   \<and> get_withholding_rate (example_db [treaty_standard_only]) ''United States'' ''Netherlands''
       ''services''
     = \<lparr>ri_rate = 0, ri_treaty_applied = True, ri_eu_member = None,
         ri_treaty_name = Some ''Netherlands-United States Income Tax Treaty'',
         ri_treaty_code = Some ''NL-US'', ri_certificate_required = Some False,
         ri_form_required = None, ri_default_rate = None,
         ri_notes = ''Rate under Netherlands-United States Income Tax Treaty''\<rparr>"
  by (simp add: eval_defs)

text \<open>The value of the loop over the rate fields.\<close>

lemma first_rate_services:
  "first_rate t (dict_get rate_fields ''services'' [''reduced_rate''])
     = (case independent_services_rate t of
          Some r \<Rightarrow> Some r
        | None \<Rightarrow> (case service_fee_rate t of Some r \<Rightarrow> Some r | None \<Rightarrow> reduced_rate t))"
  by (simp add: rate_fields_def dict_get_def treaty_get_def split: option.splits)

lemma first_rate_other:
  "income_type \<notin> set (map fst rate_fields) \<Longrightarrow>
   first_rate t (dict_get rate_fields income_type [''reduced_rate'']) = reduced_rate t"
  by (simp add: rate_fields_def dict_get_def treaty_get_def split: option.splits)

text \<open>
  C4, amended: for a treaty that the lookup found, the rate for \<open>services\<close> is the
  first present one of \<open>independent_services_rate\<close>, \<open>service_fee_rate\<close> and
  \<open>reduced_rate\<close>; for an income type that the table of rate fields does not list it
  is \<open>reduced_rate\<close>. The standard rate is never consulted; when every consulted field
  is absent the rate is 0, still with \<open>treaty_applied\<close> true, and no error is raised.
\<close>

theorem treaty_rate_resolution:
  assumes "\<not> (freelancer \<in> set get_eu_countries \<and> company \<in> set get_eu_countries)"
    and "get_applicable_treaty db freelancer company = Some t"
  shows "ri_treaty_applied (get_withholding_rate db freelancer company income_type)
     \<and> (income_type = ''services'' \<longrightarrow>
          ri_rate (get_withholding_rate db freelancer company income_type)
          = (case independent_services_rate t of
               Some r \<Rightarrow> r
             | None \<Rightarrow> (case service_fee_rate t of
                          Some r \<Rightarrow> r
                        | None \<Rightarrow> (case reduced_rate t of Some r \<Rightarrow> r | None \<Rightarrow> 0))))
     \<and> (income_type \<notin> set (map fst rate_fields) \<longrightarrow>
          ri_rate (get_withholding_rate db freelancer company income_type)
          = (case reduced_rate t of Some r \<Rightarrow> r | None \<Rightarrow> 0))"
proof -
  have rate: "ri_rate (get_withholding_rate db freelancer company income_type)
          = (case first_rate t (dict_get rate_fields income_type [''reduced_rate'']) of
               Some r \<Rightarrow> r | None \<Rightarrow> 0)"
    and applied: "ri_treaty_applied (get_withholding_rate db freelancer company income_type)"
    using assms by (auto simp: get_withholding_rate_def Let_def split: option.splits)
  have "ri_rate (get_withholding_rate db freelancer company income_type)
          = (case independent_services_rate t of
               Some r \<Rightarrow> r
             | None \<Rightarrow> (case service_fee_rate t of
                          Some r \<Rightarrow> r
                        | None \<Rightarrow> (case reduced_rate t of Some r \<Rightarrow> r | None \<Rightarrow> 0)))"
    if "income_type = ''services''"
    using that rate by (simp add: first_rate_services split: option.splits)
  moreover have "ri_rate (get_withholding_rate db freelancer company income_type)
          = (case reduced_rate t of Some r \<Rightarrow> r | None \<Rightarrow> 0)"
    if "income_type \<notin> set (map fst rate_fields)"
    using that rate by (simp add: first_rate_other)
  ultimately show ?thesis using applied by blast
qed

theorem treaty_rate_resolution_witness:
  "\<not> (''United States'' \<in> set get_eu_countries \<and> ''Netherlands'' \<in> set get_eu_countries)
   \<and> get_applicable_treaty (example_db [treaty_NL_US]) ''United States'' ''Netherlands''
       = Some treaty_NL_US
   \<and> ri_rate (get_withholding_rate (example_db [treaty_NL_US]) ''United States''
        ''Netherlands'' ''services'') = 15
   \<and> ''rent'' \<notin> set (map fst rate_fields)
   \<and> ri_rate (get_withholding_rate (example_db [treaty_NL_US]) ''United States''
        ''Netherlands'' ''rent'') = 15"
proof -
  have a: "\<not> (''United States'' \<in> set get_eu_countries \<and> ''Netherlands'' \<in> set get_eu_countries)"
    by (simp add: get_eu_countries_def)
  have b: "get_applicable_treaty (example_db [treaty_NL_US]) ''United States'' ''Netherlands''
       = Some treaty_NL_US"
    by (simp add: eval_defs)
  have c: "''rent'' \<notin> set (map fst rate_fields)" by (simp add: rate_fields_def)
  show ?thesis
    using a b c treaty_rate_resolution [OF a b, of "''services''"]
      treaty_rate_resolution [OF a b, of "''rent''"]
    by (simp add: treaty_NL_US_def)
qed

section \<open>Compliance notes and input checks\<close>

text \<open>
  C3, as stated: a request with gross amount 10000 gets an AML-review note, the note being
  appended at and beyond the threshold. The code appends it for amounts strictly above
  10000 only: at exactly 10000 (Germany to France, B2B) the notes are the reverse-charge
  and the intra-Community note, and no large-payment note.
\<close>

theorem aml_note_counterexample:
  "map_sum id compliance_notes
     (calculate_all_taxes (example_db [])
        (TaxCalculator (example_db []) ''Germany'' ''France'' True None)
        10000 ''professional'' False)
   = Inr [REVERSE_CHARGE, EU_INTRA_COMMUNITY]"
  by (simp add: eval_defs)

text \<open>
  C3, amended: the breakdown's compliance notes contain the large-payment (AML) note
  exactly when the gross amount is strictly greater than 10000.
\<close>

theorem aml_note_iff_over_threshold:
  assumes "calculate_all_taxes db self g st cert = Inr r"
  shows "(LARGE_PAYMENT \<in> set (compliance_notes r)) = (10000 < g)"
  using calculate_all_taxes_Inr(3,4) [OF assms]
  by (simp add: get_compliance_notes_def)

theorem aml_note_iff_over_threshold_witness:
  "\<exists>r. calculate_all_taxes (example_db [])
          (TaxCalculator (example_db []) ''Germany'' ''France'' True None)
          (1000001 / 100) ''professional'' False = Inr r
       \<and> LARGE_PAYMENT \<in> set (compliance_notes r)"
proof -
  have "calculate_vat (example_db [])
          (TaxCalculator (example_db []) ''Germany'' ''France'' True None)
          (1000001 / 100) ''professional''
        = Inr \<lparr>vat_rate = 0, vat_amount = 0, vat_reverse_charge = True,
                vat_notes = ''EU B2B reverse charge mechanism - VAT accounted by recipient''\<rparr>"
    by (simp add: eval_defs)
  from calculate_all_taxes_returns [OF this]
  obtain r where r: "calculate_all_taxes (example_db [])
          (TaxCalculator (example_db []) ''Germany'' ''France'' True None)
          (1000001 / 100) ''professional'' False = Inr r" by blast
  have "LARGE_PAYMENT \<in> set (compliance_notes r)"
    using aml_note_iff_over_threshold [OF r] by simp
  with r show ?thesis by blast
qed

text \<open>
  C2, as stated: a request with a strictly negative gross amount is rejected with an
  \<open>InvalidAmount\<close> error and no breakdown. The code does not look at the sign: a
  domestic German B2C payment of -1000 returns a breakdown with VAT -190 and net
  payable -1190.
\<close>

theorem negative_gross_counterexample:
  "calculate_all_taxes (example_db [])
     (TaxCalculator (example_db []) ''Germany'' ''Germany'' False None)
     (- 1000) ''standard'' False
   = Inr \<lparr>gross_amount = - 1000, res_freelancer_country = ''Germany'',
           res_company_country = ''Germany'', is_eu_freelancer = True,
           res_is_cross_border = False, res_transaction_date = 20000,
           components = [], warnings = [], compliance_notes = [],
           withholding_tax =
             \<lparr>wh_rate = 0, wh_amount = 0, wh_treaty_applied = False,
              wh_treaty_name = None, wh_certificate_required = None,
              wh_notes = ''No withholding tax between EU member states''\<rparr>,
           vat =
             \<lparr>vat_rate = 19, vat_amount = - 190, vat_reverse_charge = False,
              vat_notes = ''Standard VAT rate for Germany''\<rparr>,
           gross_with_vat = - 1190, total_deductions = 0, net_payable = - 1190\<rparr>"
  by (simp add: eval_defs)

text \<open>
  C2, amended: \<open>calculate_all_taxes\<close> does not validate the sign of the gross amount.
  For a strictly negative gross amount it returns a breakdown computed by the same
  formulas as for any other amount (the gross amount is kept, withholding and VAT are
  computed from it, net payable follows the usual rule); the only failure is the one
  that any amount has, a \<open>TypeError\<close> when the VAT rate found is null.
\<close>

theorem negative_gross_is_computed:
  assumes "g < 0"
  shows "(\<exists>r. calculate_all_taxes db self g st cert = Inr r
            \<and> gross_amount r = g
            \<and> withholding_tax r = calculate_withholding db self g cert
            \<and> calculate_vat db self g st = Inr (vat r)
            \<and> net_payable r =
                (if vat_reverse_charge (vat r) then g - wh_amount (withholding_tax r)
                 else g + vat_amount (vat r) - wh_amount (withholding_tax r)))
         \<or> (calculate_all_taxes db self g st cert = Inl TypeError
            \<and> vi_rate (get_vat_rate db (freelancer_country self) st (is_b2b self)) = None)"
proof (cases "calculate_vat db self g st")
  case (Inl e)
  then have "vi_rate (get_vat_rate db (freelancer_country self) st (is_b2b self)) = None"
    by (simp add: calculate_vat_error)
  moreover have "calculate_all_taxes db self g st cert = Inl TypeError"
    using calculate_all_taxes_error [OF Inl] by (cases e) simp
  ultimately show ?thesis by blast
next
  case (Inr v)
  then show ?thesis
    by (simp add: calculate_all_taxes_def Let_def)
qed

theorem negative_gross_is_computed_witness:
  "(- 1000 :: rat) < 0
   \<and> (\<exists>r. calculate_all_taxes (example_db [])
             (TaxCalculator (example_db []) ''Germany'' ''Germany'' False None)
             (- 1000) ''standard'' False = Inr r
          \<and> gross_amount r = - 1000)"
proof -
  have neg: "(- 1000 :: rat) < 0" by simp
  have some: "vi_rate (get_vat_rate (example_db [])
           (freelancer_country (TaxCalculator (example_db []) ''Germany'' ''Germany'' False None))
           ''standard''
           (is_b2b (TaxCalculator (example_db []) ''Germany'' ''Germany'' False None)))
        \<noteq> None"
    by (simp add: eval_defs)
  from negative_gross_is_computed [OF neg, of "example_db []"
        "TaxCalculator (example_db []) ''Germany'' ''Germany'' False None" "''standard''" False]
  have "\<exists>r. calculate_all_taxes (example_db [])
             (TaxCalculator (example_db []) ''Germany'' ''Germany'' False None)
             (- 1000) ''standard'' False = Inr r
          \<and> gross_amount r = - 1000"
  proof (elim disjE exE conjE)
    fix r
    assume "calculate_all_taxes (example_db [])
             (TaxCalculator (example_db []) ''Germany'' ''Germany'' False None)
             (- 1000) ''standard'' False = Inr r"
      and "gross_amount r = - 1000"
    then show ?thesis by blast
  next
    assume "vi_rate (get_vat_rate (example_db [])
           (freelancer_country (TaxCalculator (example_db []) ''Germany'' ''Germany'' False None))
           ''standard''
           (is_b2b (TaxCalculator (example_db []) ''Germany'' ''Germany'' False None)))
        = None"
    with some show ?thesis by simp
  qed
  with neg show ?thesis by simp
qed

section \<open>VAT\<close>

text \<open>
  C5: every B2C request, whatever the two countries, takes the final rule (the payee
  country's VAT rate selected by service type, no reverse charge); the export branch is
  for B2B only. The export test of the code does not look at \<open>is_b2b\<close>: a German
  freelancer and a company in the United States, B2C, gross 1000, service type
  \<open>standard\<close>: the code returns the export result with rate 0 and amount 0, where the
  final rule gives Germany's 19%.
\<close>

theorem b2c_export_gets_zero_vat:
  "vi_rate (get_vat_rate (example_db []) ''Germany'' ''standard'' False) = Some 19
   \<and> calculate_vat (example_db [])
        (TaxCalculator (example_db []) ''Germany'' ''United States'' False None)
        1000 ''standard''
     = Inr \<lparr>vat_rate = 0, vat_amount = 0, vat_reverse_charge = False,
             vat_notes = ''Export of services outside EU - 0% VAT''\<rparr>"
  by (simp add: eval_defs)

text \<open>
  The other B2C requests do take the final rule: without the B2B flag only the export
  test can come before it.
\<close>

lemma b2c_vat_branches:
  "calculate_vat db (TaxCalculator db freelancer company False td) g st =
     (if freelancer \<in> set get_eu_countries \<and> company \<notin> set get_eu_countries
      then Inr \<lparr>vat_rate = 0, vat_amount = 0, vat_reverse_charge = False,
                 vat_notes = ''Export of services outside EU - 0% VAT''\<rparr>
      else case vi_rate (get_vat_rate db freelancer st False) of
             None \<Rightarrow> Inl TypeError
           | Some rate \<Rightarrow>
               Inr \<lparr>vat_rate = rate, vat_amount = py_round (g * rate / 100) 2,
                    vat_reverse_charge = False,
                    vat_notes = ''Standard VAT rate for '' @ freelancer\<rparr>)
   \<and> vi_rate (get_vat_rate db freelancer st False) =
       (case vat_configurations db freelancer of
          None \<Rightarrow> Some 0
        | Some config \<Rightarrow>
            if st = ''reduced'' then reduced_rate_1 config
            else if st = ''digital''
              then py_or (digital_services_rate config) (standard_rate config)
            else if st = ''professional''
              then py_or (professional_services_rate config) (standard_rate config)
            else standard_rate config)"
  by (simp add: calculate_vat_def TaxCalculator_def get_vat_rate_def dict_get_def Let_def
      split: option.splits)

lemma b2c_domestic_example:
  "calculate_vat (example_db [])
        (TaxCalculator (example_db []) ''Germany'' ''Germany'' False None)
        1000 ''standard''
     = Inr \<lparr>vat_rate = 19, vat_amount = 190, vat_reverse_charge = False,
             vat_notes = ''Standard VAT rate for Germany''\<rparr>"
  using b2c_vat_branches [of "example_db []" "''Germany''" "''Germany''" None 1000 "''standard''"]
  by (simp add: get_eu_countries_def example_db_def example_vat_def)

section \<open>Monotonicity of the amounts\<close>

text \<open>
  C8, as stated: for two requests that differ only in their gross amounts \<open>a < b\<close>, a
  positive VAT rate makes the VAT amount for \<open>b\<close> strictly greater, and a positive
  withholding rate makes the withholding amount for \<open>b\<close> strictly greater. Both
  amounts are rounded to two decimals: a freelancer of the United Kingdom paid by a
  company in the United States, B2C, has VAT rate 20 and withholding rate 20, and both
  amounts are 0 for gross 0.01 and for gross 0.02.
\<close>

theorem strict_monotonicity_counterexample:
  "map_sum id vat
     (calculate_all_taxes (example_db [])
        (TaxCalculator (example_db []) ''United Kingdom'' ''United States'' False None)
        (1 / 100) ''standard'' False)
   = Inr \<lparr>vat_rate = 20, vat_amount = 0, vat_reverse_charge = False,
           vat_notes = ''Standard VAT rate for United Kingdom''\<rparr>
   \<and> map_sum id vat
     (calculate_all_taxes (example_db [])
        (TaxCalculator (example_db []) ''United Kingdom'' ''United States'' False None)
        (2 / 100) ''standard'' False)
   = Inr \<lparr>vat_rate = 20, vat_amount = 0, vat_reverse_charge = False,
           vat_notes = ''Standard VAT rate for United Kingdom''\<rparr>
   \<and> map_sum id withholding_tax
     (calculate_all_taxes (example_db [])
        (TaxCalculator (example_db []) ''United Kingdom'' ''United States'' False None)
        (1 / 100) ''standard'' False)
   = Inr \<lparr>wh_rate = 20, wh_amount = 0, wh_treaty_applied = False,
           wh_treaty_name = None, wh_certificate_required = Some False,
           wh_notes = ''No applicable treaty found. Default withholding rate applied.''\<rparr>
   \<and> map_sum id withholding_tax
     (calculate_all_taxes (example_db [])
        (TaxCalculator (example_db []) ''United Kingdom'' ''United States'' False None)
        (2 / 100) ''standard'' False)
   = Inr \<lparr>wh_rate = 20, wh_amount = 0, wh_treaty_applied = False,
           wh_treaty_name = None, wh_certificate_required = Some False,
           wh_notes = ''No applicable treaty found. Default withholding rate applied.''\<rparr>"
  by (simp add: eval_defs py_round_small)

text \<open>Both steps are monotone in the amount, the rates do not depend on it.\<close>

lemma calculate_vat_mono:
  assumes "a \<le> b" "calculate_vat db self a st = Inr va" "calculate_vat db self b st = Inr vb"
  shows "vat_rate va = vat_rate vb \<and> (0 \<le> vat_rate vb \<longrightarrow> vat_amount va \<le> vat_amount vb)"
proof -
  have "py_round (a * r / 100) 2 \<le> py_round (b * r / 100) 2" if "0 \<le> r" for r
    using assms(1) that by (intro py_round_mono divide_right_mono mult_right_mono) simp_all
  then show ?thesis
    using assms(2,3)
    by (auto simp: calculate_vat_def Let_def split: if_splits option.splits)
qed

lemma calculate_withholding_mono:
  assumes "a \<le> b"
  shows "wh_rate (calculate_withholding db self a cert) = wh_rate (calculate_withholding db self b cert)
     \<and> (0 \<le> wh_rate (calculate_withholding db self b cert) \<longrightarrow>
          wh_amount (calculate_withholding db self a cert)
          \<le> wh_amount (calculate_withholding db self b cert))"
proof -
  have "py_round (a * r / 100) 2 \<le> py_round (b * r / 100) 2" if "0 \<le> r" for r
    using assms(1) that by (intro py_round_mono divide_right_mono mult_right_mono) simp_all
  then show ?thesis
    by (simp add: calculate_withholding_def Let_def)
qed

text \<open>
  C8, amended: for two requests that differ only in their gross amounts \<open>a < b\<close>, the
  VAT rate and the withholding rate are the same; if the VAT rate is positive, the VAT
  amount for \<open>b\<close> is greater than or equal to the one for \<open>a\<close>, and if the
  withholding rate is positive, the withholding amount for \<open>b\<close> is greater than or
  equal to the one for \<open>a\<close>.
\<close>

theorem amounts_monotone:
  assumes "a < b"
    and "calculate_all_taxes db self a st cert = Inr ra"
    and "calculate_all_taxes db self b st cert = Inr rb"
  shows "vat_rate (vat ra) = vat_rate (vat rb)
     \<and> wh_rate (withholding_tax ra) = wh_rate (withholding_tax rb)
     \<and> (0 < vat_rate (vat rb) \<longrightarrow> vat_amount (vat ra) \<le> vat_amount (vat rb))
     \<and> (0 < wh_rate (withholding_tax rb) \<longrightarrow>
          wh_amount (withholding_tax ra) \<le> wh_amount (withholding_tax rb))"
proof -
  have le: "a \<le> b" using assms(1) by simp
  have v: "vat_rate (vat ra) = vat_rate (vat rb)
           \<and> (0 \<le> vat_rate (vat rb) \<longrightarrow> vat_amount (vat ra) \<le> vat_amount (vat rb))"
    using calculate_vat_mono [OF le calculate_all_taxes_Inr(1) [OF assms(2)]
        calculate_all_taxes_Inr(1) [OF assms(3)]] .
  have w: "wh_rate (withholding_tax ra) = wh_rate (withholding_tax rb)
     \<and> (0 \<le> wh_rate (withholding_tax rb) \<longrightarrow>
          wh_amount (withholding_tax ra) \<le> wh_amount (withholding_tax rb))"
    using calculate_withholding_mono [OF le, of db self cert]
      calculate_all_taxes_Inr(2) [OF assms(2)] calculate_all_taxes_Inr(2) [OF assms(3)]
    by simp
  show ?thesis using v w by simp
qed

theorem amounts_monotone_witness:
  "(1000 :: rat) < 2000
   \<and> (\<exists>ra rb.
        calculate_all_taxes (example_db [])
          (TaxCalculator (example_db []) ''United Kingdom'' ''United States'' False None)
          1000 ''standard'' False = Inr ra
      \<and> calculate_all_taxes (example_db [])
          (TaxCalculator (example_db []) ''United Kingdom'' ''United States'' False None)
          2000 ''standard'' False = Inr rb
      \<and> 0 < vat_rate (vat rb) \<and> vat_amount (vat ra) \<le> vat_amount (vat rb)
      \<and> 0 < wh_rate (withholding_tax rb)
      \<and> wh_amount (withholding_tax ra) \<le> wh_amount (withholding_tax rb))"
proof -
  let ?c = "TaxCalculator (example_db []) ''United Kingdom'' ''United States'' False None"
  have lt: "(1000 :: rat) < 2000" by simp
  have va: "calculate_vat (example_db []) ?c 1000 ''standard''
        = Inr \<lparr>vat_rate = 20, vat_amount = 200, vat_reverse_charge = False,
                vat_notes = ''Standard VAT rate for United Kingdom''\<rparr>"
    by (simp add: eval_defs)
  have vb: "calculate_vat (example_db []) ?c 2000 ''standard''
        = Inr \<lparr>vat_rate = 20, vat_amount = 400, vat_reverse_charge = False,
                vat_notes = ''Standard VAT rate for United Kingdom''\<rparr>"
    by (simp add: eval_defs)
  obtain ra where ra: "calculate_all_taxes (example_db []) ?c 1000 ''standard'' False = Inr ra"
    using calculate_all_taxes_returns [OF va] by blast
  obtain rb where rb: "calculate_all_taxes (example_db []) ?c 2000 ''standard'' False = Inr rb"
    using calculate_all_taxes_returns [OF vb] by blast
  have "vat rb = \<lparr>vat_rate = 20, vat_amount = 400, vat_reverse_charge = False,
                vat_notes = ''Standard VAT rate for United Kingdom''\<rparr>"
    using calculate_all_taxes_Inr(1) [OF rb] vb by simp
  then have pv: "0 < vat_rate (vat rb)" by simp
  have "wh_rate (withholding_tax rb) = 20"
    using calculate_all_taxes_Inr(2) [OF rb] by (simp add: eval_defs)
  then have pw: "0 < wh_rate (withholding_tax rb)" by simp
  show ?thesis
    using lt ra rb pv pw amounts_monotone [OF lt ra rb] by blast
qed


end
